theory Spec2Isabelle
  imports Main "HOL-Library.Word"
begin

section \<open>JavaScript values, strings and errors\<close>

text \<open>
  Strings are sequences of code units, restricted to the Latin-1 range \<open>0..255\<close>: this is
  exactly how Node decodes HTTP header values, and every string literal the source compares
  against is ASCII. A \<open>Buffer\<close> is a sequence of bytes, also a \<^typ>\<open>string\<close>.

  An error object carries the properties the source reads: \<open>name\<close>, \<open>message\<close>,
  \<open>status\<close> and \<open>headers\<close> (\<open>None\<close> is \<open>undefined\<close>). The message texts of errors raised
  by the engine itself are abbreviated.
\<close>

record js_error =
  name :: string
  message :: string
  status :: "int option"
  headers :: "(string \<times> string) list option"

definition Error :: "string \<Rightarrow> js_error" where
  "Error msg = \<lparr>name = ''Error'', message = msg, status = None, headers = None\<rparr>"

definition TypeError :: "string \<Rightarrow> js_error" where
  "TypeError msg = \<lparr>name = ''TypeError'', message = msg, status = None, headers = None\<rparr>"

definition RangeError :: "string \<Rightarrow> js_error" where
  "RangeError msg = \<lparr>name = ''RangeError'', message = msg, status = None, headers = None\<rparr>"

text \<open>\<open>!s\<close> for a string-or-undefined value: \<open>undefined\<close> and the empty string are falsy.\<close>

fun falsy :: "string option \<Rightarrow> bool" where
  "falsy None = True"
| "falsy (Some s) = (s = [])"

subsection \<open>\<open>Buffer.from(s, 'utf8')\<close>\<close>

text \<open>
  A code unit below \<open>0x80\<close> is one byte; one in \<open>0x80..0xFF\<close> is the two bytes
  \<open>0xC0 | (c >> 6)\<close> and \<open>0x80 | (c & 0x3F)\<close>.
\<close>

fun utf8_char :: "char \<Rightarrow> string" where
  "utf8_char (Char b0 b1 b2 b3 b4 b5 b6 b7) =
     (if b7 then [Char b6 True False False False False True True,
                  Char b0 b1 b2 b3 b4 b5 False True]
      else [Char b0 b1 b2 b3 b4 b5 b6 False])"

definition Buffer_from_utf8 :: "string \<Rightarrow> string" where
  "Buffer_from_utf8 s = concat (map utf8_char s)"

subsection \<open>\<open>crypto.timingSafeEqual\<close>\<close>

text \<open>Node throws a \<open>RangeError\<close> when the two buffers differ in byte length.\<close>

definition timingSafeEqual :: "string \<Rightarrow> string \<Rightarrow> js_error + bool" where
  "timingSafeEqual a b =
     (if length a \<noteq> length b
      then Inl (RangeError ''Input buffers must have the same byte length'')
      else Inr (a = b))"

subsection \<open>\<open>digest('hex')\<close>\<close>

text \<open>
  The HMAC itself is Node's \<open>crypto\<close> library, a parameter of the model: a function from
  key bytes and message bytes to the 256-bit digest. \<open>digest('hex')\<close> writes the digest as
  64 lowercase hexadecimal digits, most significant first.
\<close>

type_synonym hmac = "string \<Rightarrow> string \<Rightarrow> 256 word"

definition hex_digit :: "nat \<Rightarrow> char" where
  "hex_digit n = ''0123456789abcdef'' ! (n mod 16)"

definition digest_hex :: "256 word \<Rightarrow> string" where
  "digest_hex d =
     map (\<lambda>i. hex_digit (unat (take_bit 4 (drop_bit (4 * (63 - i)) d)))) [0..<64]"

section \<open>webhooks.js: verifySignature\<close>

text \<open>
  \<open>payload\<close> is the raw request body (a \<open>Buffer\<close>), \<open>signature\<close> the header value
  (\<open>None\<close> when the header is missing), \<open>secret\<close> the webhook secret (\<open>None\<close> when
  \<open>WEBHOOK_SECRET\<close> is not set). The result is \<open>Inl\<close> the exception thrown or
  \<open>Inr\<close> the boolean returned.
\<close>

definition expected_signature :: "hmac \<Rightarrow> string \<Rightarrow> string \<Rightarrow> string" where
  "expected_signature hm secret payload =
     ''sha256='' @ digest_hex (hm (Buffer_from_utf8 secret) payload)"

definition verifySignature ::
  "hmac \<Rightarrow> string \<Rightarrow> string option \<Rightarrow> string option \<Rightarrow> js_error + bool" where
  "verifySignature hm payload signature secret =
     (if falsy secret then Inr True
      else
        let digest = expected_signature hm (the secret) payload
        in timingSafeEqual
             (Buffer_from_utf8 (case signature of None \<Rightarrow> [] | Some s \<Rightarrow> s))
             (Buffer_from_utf8 digest))"

section \<open>Values parsed from JSON\<close>

text \<open>
  The values \<open>JSON.parse\<close> returns, and \<open>undefined\<close> (what reading a missing property
  gives). Numbers are the integers; an object is its list of properties.
\<close>

datatype jsval =
    Undefined
  | Null
  | Bool bool
  | Num int
  | Str string
  | Arr "jsval list"
  | Obj "(string \<times> jsval) list"

fun nullish :: "jsval \<Rightarrow> bool" where
  "nullish Undefined = True"
| "nullish Null = True"
| "nullish _ = False"

fun truthy :: "jsval \<Rightarrow> bool" where
  "truthy Undefined = False"
| "truthy Null = False"
| "truthy (Bool b) = b"
| "truthy (Num n) = (n \<noteq> 0)"
| "truthy (Str s) = (s \<noteq> [])"
| "truthy (Arr xs) = True"
| "truthy (Obj kvs) = True"

text \<open>
  \<open>v.k\<close> for a value that is neither \<open>null\<close> nor \<open>undefined\<close>: an own property of an
  object, \<open>length\<close> of an array or string, \<open>undefined\<close> otherwise (the source reads no
  inherited property of a parsed value but \<open>map\<close>, which \<open>handleInstallation\<close> treats).
\<close>

fun property :: "jsval \<Rightarrow> string \<Rightarrow> jsval" where
  "property (Obj kvs) k = (case map_of kvs k of Some v \<Rightarrow> v | None \<Rightarrow> Undefined)"
| "property (Arr xs) k = (if k = ''length'' then Num (int (length xs)) else Undefined)"
| "property (Str s) k = (if k = ''length'' then Num (int (length s)) else Undefined)"
| "property _ k = Undefined"

text \<open>\<open>v.k\<close>: a \<open>TypeError\<close> when \<open>v\<close> is \<open>null\<close> or \<open>undefined\<close>. \<open>v?.k\<close>: \<open>undefined\<close> then.\<close>

definition read_prop :: "jsval \<Rightarrow> string \<Rightarrow> js_error + jsval" where
  "read_prop v k =
     (if nullish v then Inl (TypeError ''Cannot read properties of undefined'')
      else Inr (property v k))"

definition read_opt :: "jsval \<Rightarrow> string \<Rightarrow> jsval" where
  "read_opt v k = (if nullish v then Undefined else property v k)"

text \<open>Sequencing of computations that may throw.\<close>

definition and_then :: "js_error + 'a \<Rightarrow> ('a \<Rightarrow> js_error + 'b) \<Rightarrow> js_error + 'b" where
  "and_then r f = (case r of Inl e \<Rightarrow> Inl e | Inr x \<Rightarrow> f x)"

subsection \<open>\<open>parseInt\<close>\<close>

text \<open>
  ECMAScript \<open>parseInt(string, radix)\<close> on a Latin-1 string: leading white space is
  skipped, a sign is read, a \<open>0x\<close> prefix selects radix 16 when no radix (or 16) is
  given, and the longest prefix of digits is the value; \<open>None\<close> is \<open>NaN\<close>. Numbers are
  unbounded integers here, which is what a double holds below \<open>2^53\<close>.
\<close>

definition is_space :: "char \<Rightarrow> bool" where
  "is_space c = ((of_char c :: nat) \<in> {9, 10, 11, 12, 13, 32, 160})"

definition digit_of :: "char \<Rightarrow> nat option" where
  "digit_of c =
     (let n = (of_char c :: nat) in
      if 48 \<le> n \<and> n \<le> 57 then Some (n - 48)
      else if 97 \<le> n \<and> n \<le> 122 then Some (n - 87)
      else if 65 \<le> n \<and> n \<le> 90 then Some (n - 55)
      else None)"

definition radix_digit :: "nat \<Rightarrow> char \<Rightarrow> bool" where
  "radix_digit R c = (case digit_of c of Some d \<Rightarrow> d < R | None \<Rightarrow> False)"

definition digits_value :: "nat \<Rightarrow> string \<Rightarrow> int" where
  "digits_value R Z =
     foldl (\<lambda>a c. a * int R + (case digit_of c of Some d \<Rightarrow> int d | None \<Rightarrow> 0)) 0 Z"

definition parseInt :: "string \<Rightarrow> nat option \<Rightarrow> int option" where
  "parseInt inputString radix =
     (let S = dropWhile is_space inputString;
          sign = (if take 1 S = ''-'' then - 1 else 1 :: int);
          S1 = (if take 1 S = ''+'' \<or> take 1 S = ''-'' then drop 1 S else S);
          R0 = (case radix of None \<Rightarrow> 0 | Some r \<Rightarrow> r)
      in if R0 \<noteq> 0 \<and> (R0 < 2 \<or> 36 < R0) then None
         else
           let stripPrefix = (R0 = 0 \<or> R0 = 16);
               hex = (stripPrefix \<and> (take 2 S1 = ''0x'' \<or> take 2 S1 = ''0X''));
               S2 = (if hex then drop 2 S1 else S1);
               R = (if hex then 16 else if R0 = 0 then 10 else R0);
               Z = takeWhile (radix_digit R) S2
           in if Z = [] then None else Some (sign * digits_value R Z))"

section \<open>The process and the platform\<close>

text \<open>
  What the two modules call but do not define is a parameter of the model: the
  environment variables, the libraries (\<open>crypto\<close>, \<open>jsonwebtoken\<close>, \<open>JSON\<close>), the clock and
  timer, and the platform behind Octokit. The platform and the clock are a state machine
  over a state \<open>'w\<close> nothing is assumed about.
\<close>

record jwt_payload =
  iat :: int
  exp :: int
  iss :: "int option"

text \<open>An Octokit client is the \<open>auth\<close> string it was built with; \<open>null\<close> is \<open>None\<close>.\<close>

datatype octokit = Bearer string | Token jsval

text \<open>
  The Octokit calls of the two modules with their arguments. The comment body of
  \<open>createComment\<close> is a fixed text around \<open>issue_number\<close>.
\<close>

datatype api_call =
    CreateInstallationAccessToken jsval
  | IssuesCreateComment jsval jsval jsval
  | IssuesAddLabels jsval jsval jsval "string list"

record 'w node =
  WEBHOOK_SECRET :: "string option"
  GITHUB_APP_ID :: "string option"
  GITHUB_PRIVATE_KEY :: "string option"
  createHmac_sha256 :: hmac
  jwt_sign :: "jwt_payload \<Rightarrow> string \<Rightarrow> js_error + string"
  JSON_parse :: "string \<Rightarrow> js_error + jsval"
  ToNumber :: "jsval \<Rightarrow> int option"
  Date_now :: "'w \<Rightarrow> int"
  setTimeout :: "int option \<Rightarrow> 'w \<Rightarrow> 'w"
  request :: "octokit \<Rightarrow> api_call \<Rightarrow> 'w \<Rightarrow> (js_error + jsval) \<times> 'w"

text \<open>
  \<open>Date_now\<close> is in milliseconds. \<open>setTimeout d\<close> is the state in which the timer's
  callback runs, for the delay \<open>d\<close> handed to it (\<open>None\<close> is \<open>NaN\<close>). \<open>request\<close> returns
  the \<open>data\<close> of the response or the error the call rejects with. \<open>JSON_parse\<close> is
  \<open>JSON.parse(payload.toString())\<close>. \<open>ToNumber\<close> is the conversion of a string, array or
  object to a number.

  What a test double would observe is recorded in a trace next to the state: the entry
  of each handler and of \<open>authenticateInstallation\<close>, each call of the operation wrapped
  by \<open>withRateLimit\<close>, and each delay handed to \<open>setTimeout\<close>. Console output is not
  modelled.
\<close>

datatype event =
    Call string
  | OperationCalled
  | SetTimeout "int option"

type_synonym 'w state = "'w \<times> event list"

definition log_call :: "string \<Rightarrow> 'w state \<Rightarrow> 'w state" where
  "log_call f s = (fst s, snd s @ [Call f])"

section \<open>auth.js\<close>

subsection \<open>generateJWT\<close>

definition generateJWT ::
  "'w node \<Rightarrow> string option \<Rightarrow> string option \<Rightarrow> 'w \<Rightarrow> js_error + string" where
  "generateJWT nd appId privateKey w =
     (if falsy appId \<or> falsy privateKey
      then Inl (Error ''GitHub App ID and private key are required'')
      else
        let now = Date_now nd w div 1000;
            payload = \<lparr>iat = now - 60, exp = now + 10 * 60,
                       iss = parseInt (the appId) (Some 10)\<rparr>
        in case jwt_sign nd payload (the privateKey) of
             Inr token \<Rightarrow> Inr token
           | Inl error \<Rightarrow> Inl (Error (''Failed to generate JWT: '' @ message error)))"

subsection \<open>authenticateApp, getInstallationToken, authenticateInstallation\<close>

definition authenticateApp ::
  "'w node \<Rightarrow> string option \<Rightarrow> string option \<Rightarrow> 'w \<Rightarrow> js_error + octokit" where
  "authenticateApp nd appId privateKey w =
     (case generateJWT nd appId privateKey w of
        Inr token \<Rightarrow> Inr (Bearer token)
      | Inl error \<Rightarrow>
          Inl (Error (''Failed to authenticate GitHub App: '' @ message error)))"

definition getInstallationToken ::
  "'w node \<Rightarrow> octokit \<Rightarrow> jsval \<Rightarrow> 'w \<Rightarrow> (js_error + jsval) \<times> 'w" where
  "getInstallationToken nd octokit installationId w =
     (case request nd octokit (CreateInstallationAccessToken installationId) w of
        (Inr data, w') \<Rightarrow>
          (case read_prop data ''token'' of
             Inr token \<Rightarrow> (Inr token, w')
           | Inl error \<Rightarrow>
               (Inl (Error (''Failed to get installation token: '' @ message error)), w'))
      | (Inl error, w') \<Rightarrow>
          (Inl (Error (''Failed to get installation token: '' @ message error)), w'))"

definition authenticateInstallation ::
  "'w node \<Rightarrow> jsval \<Rightarrow> 'w state \<Rightarrow> (js_error + octokit) \<times> 'w state" where
  "authenticateInstallation nd installationId s =
     (let s0 = log_call ''authenticateInstallation'' s in
      case authenticateApp nd (GITHUB_APP_ID nd) (GITHUB_PRIVATE_KEY nd) (fst s0) of
        Inl error \<Rightarrow>
          (Inl (Error (''Failed to authenticate installation: '' @ message error)), s0)
      | Inr appOctokit \<Rightarrow>
          (case getInstallationToken nd appOctokit installationId (fst s0) of
             (Inr installationToken, w') \<Rightarrow> (Inr (Token installationToken), (w', snd s0))
           | (Inl error, w') \<Rightarrow>
               (Inl (Error (''Failed to authenticate installation: '' @ message error)),
                (w', snd s0))))"

subsection \<open>withRateLimit\<close>

text \<open>
  \<open>operation\<close> is any computation on the platform state that returns or rejects;
  \<open>retries\<close> is the retry budget (3 when the caller gives none).
\<close>

definition rate_limit_reset :: "(string \<times> string) list \<Rightarrow> int option" where
  "rate_limit_reset h =
     (case map_of h ''x-ratelimit-reset'' of
        None \<Rightarrow> None
      | Some v \<Rightarrow> parseInt v None)"

definition wait_time :: "'w node \<Rightarrow> (string \<times> string) list \<Rightarrow> 'w \<Rightarrow> int option" where
  "wait_time nd h w =
     (case rate_limit_reset h of
        None \<Rightarrow> None
      | Some reset \<Rightarrow>
          let resetTime = reset * 1000
          in Some (resetTime - Date_now nd w + 1000))"

function withRateLimit ::
  "'w node \<Rightarrow> ('w \<Rightarrow> (js_error + 'a) \<times> 'w) \<Rightarrow> int \<Rightarrow> 'w state
     \<Rightarrow> (js_error + 'a) \<times> 'w state" where
  "withRateLimit nd operation retries (w, tr) =
     (case operation w of
        (Inr result, w1) \<Rightarrow> (Inr result, (w1, tr @ [OperationCalled]))
      | (Inl error, w1) \<Rightarrow>
          (if status error \<noteq> Some 403 then (Inl error, (w1, tr @ [OperationCalled]))
           else
             (case headers error of
                None \<Rightarrow>
                  (Inl (TypeError ''Cannot read properties of undefined''),
                   (w1, tr @ [OperationCalled]))
              | Some h \<Rightarrow>
                  (if map_of h ''x-ratelimit-remaining'' = Some ''0'' \<and> retries > 0
                   then
                     withRateLimit nd operation (retries - 1)
                       (setTimeout nd (wait_time nd h w1) w1,
                        tr @ [OperationCalled, SetTimeout (wait_time nd h w1)])
                   else (Inl error, (w1, tr @ [OperationCalled]))))))"
  by pat_completeness auto
termination
  by (relation "measure (\<lambda>(nd, operation, retries, s). nat retries)") auto

section \<open>webhooks.js: the handlers\<close>

text \<open>
  A handler returns \<open>Inr ()\<close> or throws (\<open>Inl\<close>), with the state it leaves. Destructuring
  \<open>const { a, b } = payload\<close> throws when \<open>payload\<close> is \<open>null\<close> or \<open>undefined\<close> and reads
  the properties otherwise.
\<close>

definition destructure_error :: js_error where
  "destructure_error = TypeError ''Cannot destructure property of undefined''"

text \<open>\<open>v > k\<close> for a number \<open>k\<close>: \<open>v\<close> is converted to a number, \<open>NaN\<close> compares false.\<close>

definition to_number :: "'w node \<Rightarrow> jsval \<Rightarrow> int option" where
  "to_number nd v =
     (case v of
        Undefined \<Rightarrow> None
      | Null \<Rightarrow> Some 0
      | Bool b \<Rightarrow> Some (if b then 1 else 0)
      | Num n \<Rightarrow> Some n
      | _ \<Rightarrow> ToNumber nd v)"

definition greater :: "'w node \<Rightarrow> jsval \<Rightarrow> int \<Rightarrow> bool" where
  "greater nd v k = (case to_number nd v of None \<Rightarrow> False | Some n \<Rightarrow> k < n)"

subsection \<open>Issues\<close>

text \<open>The operation \<open>() => octokit.issues.createComment({...})\<close> of \<open>handleIssueOpened\<close>.\<close>

definition createComment ::
  "'w node \<Rightarrow> octokit option \<Rightarrow> jsval \<Rightarrow> jsval \<Rightarrow> 'w \<Rightarrow> (js_error + jsval) \<times> 'w" where
  "createComment nd octokit repository issue w =
     (case octokit of
        None \<Rightarrow> (Inl (TypeError ''Cannot read properties of null''), w)
      | Some client \<Rightarrow>
          (case
             and_then (read_prop repository ''owner'') (\<lambda>owner.
             and_then (read_prop owner ''login'') (\<lambda>login.
             and_then (read_prop repository ''name'') (\<lambda>repo.
             and_then (read_prop issue ''number'') (\<lambda>issue_number.
               Inr (IssuesCreateComment login repo issue_number)))))
           of
             Inl e \<Rightarrow> (Inl e, w)
           | Inr call \<Rightarrow> request nd client call w))"

definition handleIssueOpened ::
  "'w node \<Rightarrow> jsval \<Rightarrow> octokit option \<Rightarrow> 'w state \<Rightarrow> (js_error + unit) \<times> 'w state" where
  "handleIssueOpened nd payload octokit s =
     (let s0 = log_call ''handleIssueOpened'' s in
      if nullish payload then (Inl destructure_error, s0)
      else
        let issue = property payload ''issue'';
            repository = property payload ''repository''
        in case withRateLimit nd (createComment nd octokit repository issue) 3 s0 of
             (r, s1) \<Rightarrow> (Inr (), s1))"

definition handleIssueClosed ::
  "'w node \<Rightarrow> jsval \<Rightarrow> octokit option \<Rightarrow> 'w state \<Rightarrow> (js_error + unit) \<times> 'w state" where
  "handleIssueClosed nd payload octokit s =
     (let s0 = log_call ''handleIssueClosed'' s in
      if nullish payload then (Inl destructure_error, s0)
      else
        (case read_prop (property payload ''issue'') ''number'' of
           Inl e \<Rightarrow> (Inl e, s0)
         | Inr n \<Rightarrow> (Inr (), s0)))"

definition handleIssueLabeled ::
  "'w node \<Rightarrow> jsval \<Rightarrow> octokit option \<Rightarrow> 'w state \<Rightarrow> (js_error + unit) \<times> 'w state" where
  "handleIssueLabeled nd payload octokit s =
     (let s0 = log_call ''handleIssueLabeled'' s in
      if nullish payload then (Inl destructure_error, s0)
      else
        (case read_prop (property payload ''issue'') ''number'' of
           Inl e \<Rightarrow> (Inl e, s0)
         | Inr n \<Rightarrow> (Inr (), s0)))"

definition handleIssues ::
  "'w node \<Rightarrow> jsval \<Rightarrow> octokit option \<Rightarrow> 'w state \<Rightarrow> (js_error + unit) \<times> 'w state" where
  "handleIssues nd payload octokit s =
     (let s0 = log_call ''handleIssues'' s in
      if nullish payload then (Inl destructure_error, s0)
      else
        let action = property payload ''action'';
            issue = property payload ''issue''
        in case read_prop issue ''title'' of
             Inl e \<Rightarrow> (Inl e, s0)
           | Inr title \<Rightarrow>
               if action = Str ''opened'' then handleIssueOpened nd payload octokit s0
               else if action = Str ''closed'' then handleIssueClosed nd payload octokit s0
               else if action = Str ''labeled'' \<or> action = Str ''unlabeled''
                 then handleIssueLabeled nd payload octokit s0
               else (Inr (), s0))"

subsection \<open>Pull requests\<close>

text \<open>The operation \<open>() => octokit.issues.addLabels({...})\<close> of \<open>handlePROpened\<close>.\<close>

definition addLabels ::
  "'w node \<Rightarrow> octokit option \<Rightarrow> jsval \<Rightarrow> jsval \<Rightarrow> string list \<Rightarrow> 'w
     \<Rightarrow> (js_error + jsval) \<times> 'w" where
  "addLabels nd octokit repository pull_request labels w =
     (case octokit of
        None \<Rightarrow> (Inl (TypeError ''Cannot read properties of null''), w)
      | Some client \<Rightarrow>
          (case
             and_then (read_prop repository ''owner'') (\<lambda>owner.
             and_then (read_prop owner ''login'') (\<lambda>login.
             and_then (read_prop repository ''name'') (\<lambda>repo.
             and_then (read_prop pull_request ''number'') (\<lambda>issue_number.
               Inr (IssuesAddLabels login repo issue_number labels)))))
           of
             Inl e \<Rightarrow> (Inl e, w)
           | Inr call \<Rightarrow> request nd client call w))"

definition size_labels :: "'w node \<Rightarrow> jsval \<Rightarrow> string list" where
  "size_labels nd pull_request =
     (if greater nd (property pull_request ''additions'') 500
         \<or> greater nd (property pull_request ''deletions'') 500
      then [''large-pr'']
      else if greater nd (property pull_request ''additions'') 100
         \<or> greater nd (property pull_request ''deletions'') 100
      then [''medium-pr'']
      else [''small-pr''])"

definition handlePROpened ::
  "'w node \<Rightarrow> jsval \<Rightarrow> octokit option \<Rightarrow> 'w state \<Rightarrow> (js_error + unit) \<times> 'w state" where
  "handlePROpened nd payload octokit s =
     (let s0 = log_call ''handlePROpened'' s in
      if nullish payload then (Inl destructure_error, s0)
      else
        let pull_request = property payload ''pull_request'';
            repository = property payload ''repository''
        in if nullish pull_request then (Inr (), s0)
           else
             let labels = size_labels nd pull_request
             in if length labels > 0
                then
                  (case withRateLimit nd
                          (addLabels nd octokit repository pull_request labels) 3 s0 of
                     (r, s1) \<Rightarrow> (Inr (), s1))
                else (Inr (), s0))"

definition handlePRMerged ::
  "'w node \<Rightarrow> jsval \<Rightarrow> octokit option \<Rightarrow> 'w state \<Rightarrow> (js_error + unit) \<times> 'w state" where
  "handlePRMerged nd payload octokit s =
     (let s0 = log_call ''handlePRMerged'' s in
      if nullish payload then (Inl destructure_error, s0)
      else
        (case read_prop (property payload ''pull_request'') ''number'' of
           Inl e \<Rightarrow> (Inl e, s0)
         | Inr n \<Rightarrow> (Inr (), s0)))"

definition handlePRReviewRequested ::
  "'w node \<Rightarrow> jsval \<Rightarrow> octokit option \<Rightarrow> 'w state \<Rightarrow> (js_error + unit) \<times> 'w state" where
  "handlePRReviewRequested nd payload octokit s =
     (let s0 = log_call ''handlePRReviewRequested'' s in
      if nullish payload then (Inl destructure_error, s0)
      else
        (case read_prop (property payload ''pull_request'') ''number'' of
           Inl e \<Rightarrow> (Inl e, s0)
         | Inr n \<Rightarrow> (Inr (), s0)))"

definition handlePullRequest ::
  "'w node \<Rightarrow> jsval \<Rightarrow> octokit option \<Rightarrow> 'w state \<Rightarrow> (js_error + unit) \<times> 'w state" where
  "handlePullRequest nd payload octokit s =
     (let s0 = log_call ''handlePullRequest'' s in
      if nullish payload then (Inl destructure_error, s0)
      else
        let action = property payload ''action'';
            pull_request = property payload ''pull_request''
        in case read_prop pull_request ''title'' of
             Inl e \<Rightarrow> (Inl e, s0)
           | Inr title \<Rightarrow>
               if action = Str ''opened'' then handlePROpened nd payload octokit s0
               else if action = Str ''closed''
                 then (if truthy (property pull_request ''merged'')
                       then handlePRMerged nd payload octokit s0
                       else (Inr (), s0))
               else if action = Str ''review_requested''
                 then handlePRReviewRequested nd payload octokit s0
               else (Inr (), s0))"

subsection \<open>Push and installation\<close>

definition handlePush ::
  "'w node \<Rightarrow> jsval \<Rightarrow> octokit option \<Rightarrow> 'w state \<Rightarrow> (js_error + unit) \<times> 'w state" where
  "handlePush nd payload octokit s =
     (let s0 = log_call ''handlePush'' s in
      if nullish payload then (Inl destructure_error, s0)
      else
        (case read_prop (property payload ''commits'') ''length'' of
           Inl e \<Rightarrow> (Inl e, s0)
         | Inr n \<Rightarrow> (Inr (), s0)))"

text \<open>
  \<open>repositories.map(r => r.name).join(', ')\<close>: only an array has \<open>map\<close>, and the callback
  throws on an element that is \<open>null\<close>.
\<close>

definition repository_names :: "jsval \<Rightarrow> js_error + unit" where
  "repository_names repositories =
     (case repositories of
        Arr rs \<Rightarrow>
          if list_ex nullish rs then Inl (TypeError ''Cannot read properties of null'')
          else Inr ()
      | _ \<Rightarrow> Inl (TypeError ''repositories.map is not a function''))"

definition handleInstallation ::
  "'w node \<Rightarrow> jsval \<Rightarrow> 'w state \<Rightarrow> (js_error + unit) \<times> 'w state" where
  "handleInstallation nd payload s =
     (let s0 = log_call ''handleInstallation'' s in
      if nullish payload then (Inl destructure_error, s0)
      else
        let action = property payload ''action'';
            installation = property payload ''installation'';
            repositories = property payload ''repositories''
        in if action = Str ''created''
           then
             (and_then (read_prop installation ''account'') (\<lambda>account.
              and_then (read_prop account ''login'') (\<lambda>login.
                if truthy repositories then repository_names repositories else Inr ())),
              s0)
           else if action = Str ''deleted''
           then
             (and_then (read_prop installation ''account'') (\<lambda>account.
              and_then (read_prop account ''login'') (\<lambda>login. Inr ())),
              s0)
           else (Inr (), s0))"

section \<open>webhooks.js: webhookHandler\<close>

record request =
  x_hub_signature_256 :: "string option"
  x_github_event :: "string option"
  body :: string

record response =
  statusCode :: nat
  sent :: string

text \<open>The \<open>switch (event)\<close>.\<close>

definition route ::
  "'w node \<Rightarrow> string option \<Rightarrow> jsval \<Rightarrow> octokit option \<Rightarrow> 'w state
     \<Rightarrow> (js_error + unit) \<times> 'w state" where
  "route nd event data octokit s =
     (if event = Some ''issues'' then handleIssues nd data octokit s
      else if event = Some ''pull_request'' then handlePullRequest nd data octokit s
      else if event = Some ''push'' then handlePush nd data octokit s
      else if event = Some ''installation'' \<or> event = Some ''installation_repositories''
        then handleInstallation nd data s
      else (Inr (), s))"

text \<open>
  The block that sets \<open>octokit\<close>: \<open>null\<close> when the payload has no truthy
  \<open>installation.id\<close>, the installation client otherwise; \<open>Inl\<close> when
  \<open>authenticateInstallation\<close> throws (the inner \<open>catch\<close>).
\<close>

definition installation_octokit ::
  "'w node \<Rightarrow> jsval \<Rightarrow> 'w state \<Rightarrow> (js_error + octokit option) \<times> 'w state" where
  "installation_octokit nd installationId s =
     (if truthy installationId
      then
        (case authenticateInstallation nd installationId s of
           (Inl error, s1) \<Rightarrow> (Inl error, s1)
         | (Inr octokit, s1) \<Rightarrow> (Inr (Some octokit), s1))
      else (Inr None, s))"

text \<open>
  The \<open>switch\<close> and the final \<open>res.status(200).send('OK')\<close>; then the body of the outer
  \<open>try\<close>: \<open>Inr\<close> the response sent, \<open>Inl\<close> the exception thrown.
\<close>

definition dispatch ::
  "'w node \<Rightarrow> string option \<Rightarrow> jsval \<Rightarrow> octokit option \<Rightarrow> 'w state
     \<Rightarrow> (js_error + response) \<times> 'w state" where
  "dispatch nd event data octokit s =
     (case route nd event data octokit s of
        (Inl e, s1) \<Rightarrow> (Inl e, s1)
      | (Inr u, s1) \<Rightarrow> (Inr \<lparr>statusCode = 200, sent = ''OK''\<rparr>, s1))"

definition webhookHandler_try ::
  "'w node \<Rightarrow> request \<Rightarrow> 'w state \<Rightarrow> (js_error + response) \<times> 'w state" where
  "webhookHandler_try nd req s =
     (let signature = x_hub_signature_256 req;
          event = x_github_event req;
          payload = body req
      in case verifySignature (createHmac_sha256 nd) payload signature (WEBHOOK_SECRET nd) of
           Inl e \<Rightarrow> (Inl e, s)
         | Inr valid \<Rightarrow>
             if \<not> valid then (Inr \<lparr>statusCode = 401, sent = ''Unauthorized''\<rparr>, s)
             else
               (case JSON_parse nd payload of
                  Inl e \<Rightarrow> (Inl e, s)
                | Inr data \<Rightarrow>
                    (case read_prop data ''installation'' of
                       Inl e \<Rightarrow> (Inl e, s)
                     | Inr installation \<Rightarrow>
                         let installationId = read_opt installation ''id''
                         in (case installation_octokit nd installationId s of
                               (Inl error, s1) \<Rightarrow>
                                 (Inr \<lparr>statusCode = 500, sent = ''Authentication failed''\<rparr>,
                                  s1)
                             | (Inr octokit, s1) \<Rightarrow> dispatch nd event data octokit s1))))"

definition webhookHandler ::
  "'w node \<Rightarrow> request \<Rightarrow> 'w state \<Rightarrow> response \<times> 'w state" where
  "webhookHandler nd req s =
     (case webhookHandler_try nd req s of
        (Inr res, s1) \<Rightarrow> (res, s1)
      | (Inl error, s1) \<Rightarrow> (\<lparr>statusCode = 500, sent = ''Internal server error''\<rparr>, s1))"

section \<open>Vocabulary of the properties\<close>

text \<open>A single-bit mutation: bit \<open>i mod 8\<close> of the byte \<open>i div 8\<close> is flipped.\<close>

fun flip_char :: "nat \<Rightarrow> char \<Rightarrow> char" where
  "flip_char k (Char b0 b1 b2 b3 b4 b5 b6 b7) =
     Char (b0 \<noteq> (k = 0)) (b1 \<noteq> (k = 1)) (b2 \<noteq> (k = 2)) (b3 \<noteq> (k = 3))
          (b4 \<noteq> (k = 4)) (b5 \<noteq> (k = 5)) (b6 \<noteq> (k = 6)) (b7 \<noteq> (k = 7))"

definition mutate_bit :: "nat \<Rightarrow> string \<Rightarrow> string" where
  "mutate_bit i s = s[i div 8 := flip_char (i mod 8) (s ! (i div 8))]"

definition ascii :: "string \<Rightarrow> bool" where
  "ascii s = list_all (\<lambda>c. \<not> digit7 c) s"

text \<open>
  The failure \<open>withRateLimit\<close> retries: status 403 and the header
  \<open>x-ratelimit-remaining\<close> equal to \<open>'0'\<close>.
\<close>

definition rate_limited :: "js_error \<Rightarrow> bool" where
  "rate_limited error =
     (status error = Some 403 \<and>
      (case headers error of
         None \<Rightarrow> False
       | Some h \<Rightarrow> map_of h ''x-ratelimit-remaining'' = Some ''0''))"

text \<open>How often the wrapped operation was called, and how often a function was entered.\<close>

definition operation_calls :: "event list \<Rightarrow> nat" where
  "operation_calls tr = count_list tr OperationCalled"

definition entered :: "string \<Rightarrow> event list \<Rightarrow> nat" where
  "entered f tr = count_list tr (Call f)"

section \<open>Test doubles\<close>

text \<open>
  A concrete process for the examples, after the repository's test setup
  (\<open>tests/setup.js\<close>, \<open>tests/auth.test.js\<close>): the state is the clock in milliseconds, a
  timer advances it by the delay (by 1 ms for a delay below 1 or \<open>NaN\<close>, as Node does),
  and the platform knows installation 42. \<open>test_hmac\<close>
  holds the HMAC-SHA256 values of the example bodies under the test secret and
  \<open>test_parse\<close> their parsed values; the examples evaluate them nowhere else.
\<close>

definition body_empty :: string where
  "body_empty = ''{}''"

definition body_push0 :: string where
  "body_push0 = ''{\"ref\":\"refs/heads/main\",\"commits\":[],\"installation\":{\"id\":0}}''"

definition body_opened :: string where
  "body_opened = ''{\"action\":\"opened\",\"issue\":{\"number\":7,\"title\":\"Bug\"},\"repository\":{\"name\":\"repo\",\"owner\":{\"login\":\"octo\"}},\"installation\":{\"id\":42}}''"

definition body_push :: string where
  "body_push = ''{\"ref\":\"refs/heads/main\",\"commits\":[],\"installation\":{\"id\":42}}''"

definition test_hmac :: hmac where
  "test_hmac key msg =
     (if key \<noteq> ''test-webhook-secret'' then 0
      else if msg = body_empty
        then 0x8592f9db7794988b89f5bcd05f3a8ef74d6986828237b62f4eb5b02aea0b076f
      else if msg = ''z}''
        then 0x1a1b9d874036768b92b1c58fe2a2f185effd884b9590508cf1a04f905042ca02
      else if msg = body_push0
        then 0x94513ac394432809c3cd5e447becdfb37a633a73670186eb725ea3f922423879
      else if msg = body_opened
        then 0x8d8c11f34515a5f42fab44d04ead9ca95a104f5b0cfd0bf216d7b3f6f0953d7d
      else if msg = body_push
        then 0x89bdffa2d8c641839b1f3ec7aa31cbcd0dd66489ca8224f4ee5a2f4ceae6871d
      else 0)"

definition parsed_push0 :: jsval where
  "parsed_push0 =
     Obj [(''ref'', Str ''refs/heads/main''), (''commits'', Arr []),
          (''installation'', Obj [(''id'', Num 0)])]"

definition parsed_opened :: jsval where
  "parsed_opened =
     Obj [(''action'', Str ''opened''),
          (''issue'', Obj [(''number'', Num 7), (''title'', Str ''Bug'')]),
          (''repository'', Obj [(''name'', Str ''repo''),
                               (''owner'', Obj [(''login'', Str ''octo'')])]),
          (''installation'', Obj [(''id'', Num 42)])]"

definition parsed_push :: jsval where
  "parsed_push =
     Obj [(''ref'', Str ''refs/heads/main''), (''commits'', Arr []),
          (''installation'', Obj [(''id'', Num 42)])]"

definition test_parse :: "string \<Rightarrow> js_error + jsval" where
  "test_parse b =
     (if b = body_empty then Inr (Obj [])
      else if b = body_push0 then Inr parsed_push0
      else if b = body_opened then Inr parsed_opened
      else if b = body_push then Inr parsed_push
      else Inl \<lparr>name = ''SyntaxError'', message = ''Unexpected token'', status = None,
                 headers = None\<rparr>)"

definition server_error :: js_error where
  "server_error =
     \<lparr>name = ''HttpError'', message = ''Server Error'', status = Some 500,
      headers = Some []\<rparr>"

definition not_found :: js_error where
  "not_found =
     \<lparr>name = ''HttpError'', message = ''Not Found'', status = Some 404, headers = Some []\<rparr>"

text \<open>A rate-limit failure whose reset time is the second 5 of the epoch, and one without
  a reset header.\<close>

definition limited_until_5 :: js_error where
  "limited_until_5 =
     \<lparr>name = ''HttpError'', message = ''API rate limit exceeded'', status = Some 403,
      headers = Some [(''x-ratelimit-remaining'', ''0''), (''x-ratelimit-reset'', ''5'')]\<rparr>"



text \<open>An operation that rejects with the same error on every call.\<close>

definition always_failing :: "js_error \<Rightarrow> int \<Rightarrow> (js_error + jsval) \<times> int" where
  "always_failing error w = (Inl error, w)"

definition test_request :: "octokit \<Rightarrow> api_call \<Rightarrow> int \<Rightarrow> (js_error + jsval) \<times> int" where
  "test_request client call w =
     (case call of
        CreateInstallationAccessToken installation_id \<Rightarrow>
          if installation_id = Num 42
          then (Inr (Obj [(''token'', Str ''ghs_installation_token'')]), w)
          else (Inl not_found, w)
      | IssuesCreateComment owner repo issue_number \<Rightarrow> (Inl server_error, w)
      | IssuesAddLabels owner repo issue_number labels \<Rightarrow> (Inr (Arr []), w))"

text \<open>
  The signer rejects the key of the test suite, which is no RSA key, as \<open>jsonwebtoken\<close>
  does; \<open>signer_expecting\<close> is a mock that signs only the claims it expects.
\<close>

definition test_sign :: "jwt_payload \<Rightarrow> string \<Rightarrow> js_error + string" where
  "test_sign payload key =
     (if key = ''fake-private-key-for-testing''
      then Inl (Error ''secretOrPrivateKey must be an asymmetric key when using RS256'')
      else Inr ''header.claims.signature'')"

definition signer_expecting ::
  "jwt_payload \<Rightarrow> jwt_payload \<Rightarrow> string \<Rightarrow> js_error + string" where
  "signer_expecting expected payload key =
     (if payload = expected then Inr ''header.claims.signature''
      else Inl (Error ''unexpected claims''))"

text \<open>A delivery with its event type, signature header and raw body.\<close>

definition delivery :: "string \<Rightarrow> string \<Rightarrow> string \<Rightarrow> request" where
  "delivery event signature payload =
     \<lparr>x_hub_signature_256 = Some signature, x_github_event = Some event, body = payload\<rparr>"

definition test_node :: "int node" where
  "test_node =
     \<lparr>WEBHOOK_SECRET = Some ''test-webhook-secret'',
      GITHUB_APP_ID = Some ''12345'',
      GITHUB_PRIVATE_KEY = Some ''test-private-key'',
      createHmac_sha256 = test_hmac,
      jwt_sign = test_sign,
      JSON_parse = test_parse,
      ToNumber = (\<lambda>v. None),
      Date_now = (\<lambda>w. w),
      setTimeout = (\<lambda>d w. w + (case d of None \<Rightarrow> 1 | Some t \<Rightarrow> if t < 1 then 1 else t)),
      request = test_request\<rparr>"

section \<open>The signature check\<close>

lemma length_digest_hex: "length (digest_hex d) = 64"
  by (simp add: digest_hex_def)

lemma utf8_char_ascii: "\<not> digit7 c \<Longrightarrow> utf8_char c = [c]"
  by (cases c) simp

lemma Buffer_from_utf8_ascii: "ascii s \<Longrightarrow> Buffer_from_utf8 s = s"
  by (induction s) (simp_all add: Buffer_from_utf8_def ascii_def utf8_char_ascii)

lemma utf8_char_first: "digit7 (hd (utf8_char c)) = digit7 c"
  by (cases c) simp

lemma utf8_char_not_Nil: "utf8_char c \<noteq> []"
  by (cases c) simp

lemma Buffer_from_utf8_eq_ascii:
  "ascii d \<Longrightarrow> Buffer_from_utf8 s = d \<Longrightarrow> s = d"
proof (induction s arbitrary: d)
  case Nil
  then show ?case by (simp add: Buffer_from_utf8_def)
next
  case (Cons c cs)
  from Cons.prems have eq: "utf8_char c @ Buffer_from_utf8 cs = d"
    by (simp add: Buffer_from_utf8_def)
  with utf8_char_not_Nil [of c] have "d \<noteq> []" by auto
  then obtain x xs where d: "d = x # xs" by (cases d) auto
  from eq d utf8_char_not_Nil [of c] have "hd (utf8_char c) = x"
    by (cases "utf8_char c") auto
  with utf8_char_first [of c] Cons.prems(1) d have "\<not> digit7 c"
    by (auto simp: ascii_def)
  then have "utf8_char c = [c]" by (rule utf8_char_ascii)
  with eq d have "c = x" "Buffer_from_utf8 cs = xs" by auto
  moreover from Cons.prems(1) d have "ascii xs" by (simp add: ascii_def)
  ultimately show ?case using Cons.IH d by auto
qed

lemma hex_digit_ascii: "\<not> digit7 (hex_digit n)"
proof -
  have "list_all (\<lambda>c. \<not> digit7 c) ''0123456789abcdef''" by simp
  moreover have "n mod 16 < length ''0123456789abcdef''" by simp
  ultimately show ?thesis
    unfolding hex_digit_def list_all_length by blast
qed

lemma ascii_digest_hex: "ascii (digest_hex d)"
  by (simp add: ascii_def digest_hex_def list_all_iff hex_digit_ascii)

lemma ascii_expected_signature: "ascii (expected_signature hm secret payload)"
  using ascii_digest_hex [of "hm (Buffer_from_utf8 secret) payload"]
  by (simp add: expected_signature_def ascii_def)

lemma length_expected_signature: "length (expected_signature hm secret payload) = 71"
  by (simp add: expected_signature_def length_digest_hex)

lemma verifySignature_configured:
  "\<not> falsy secret \<Longrightarrow>
   verifySignature hm payload signature secret =
     timingSafeEqual (Buffer_from_utf8 (case signature of None \<Rightarrow> [] | Some s \<Rightarrow> s))
       (expected_signature hm (the secret) payload)"
  by (simp add: verifySignature_def Let_def Buffer_from_utf8_ascii ascii_expected_signature)

lemma hex_digit_inj: "a < 16 \<Longrightarrow> b < 16 \<Longrightarrow> hex_digit a = hex_digit b \<Longrightarrow> a = b"
proof -
  assume a: "a < 16" and b: "b < 16" and eq: "hex_digit a = hex_digit b"
  have d: "distinct ''0123456789abcdef''" by simp
  have "a < length ''0123456789abcdef''" "b < length ''0123456789abcdef''" using a b by simp_all
  with d eq a b show ?thesis
    by (simp add: hex_digit_def nth_eq_iff_index_eq)
qed

lemma digest_hex_inj: "digest_hex d = digest_hex d' \<Longrightarrow> d = d'"
proof (rule bit_word_eqI)
  fix n assume eq: "digest_hex d = digest_hex d'" and n: "n < LENGTH(256)"
  define j where "j = n div 4"
  define i where "i = 63 - j"
  have j: "j < 64" using n by (simp add: j_def)
  have i: "i < 64" "63 - i = j" using j by (simp_all add: i_def)
  from eq have "digest_hex d ! i = digest_hex d' ! i" by simp
  with i have "hex_digit (unat (take_bit 4 (drop_bit (4 * j) d))) =
     hex_digit (unat (take_bit 4 (drop_bit (4 * j) d')))"
    by (simp add: digest_hex_def)
  moreover have "unat (take_bit 4 (drop_bit (4 * j) d)) < 16" "unat (take_bit 4 (drop_bit (4 * j) d')) < 16"
    by (simp_all add: unsigned_take_bit_eq take_bit_nat_less_exp [where n = 4, simplified])
  ultimately have "unat (take_bit 4 (drop_bit (4 * j) d)) = unat (take_bit 4 (drop_bit (4 * j) d'))"
    by (rule hex_digit_inj [rotated 2])
  then have "take_bit 4 (drop_bit (4 * j) d) = take_bit 4 (drop_bit (4 * j) d')"
    by (rule unsigned_word_eqI)
  then have "bit (take_bit 4 (drop_bit (4 * j) d)) (n mod 4) = bit (take_bit 4 (drop_bit (4 * j) d')) (n mod 4)"
    by simp
  moreover have "4 * j + n mod 4 = n" by (simp add: j_def)
  ultimately show "bit d n = bit d' n"
    by (simp add: bit_take_bit_iff bit_drop_bit_eq ac_simps)
qed

lemma expected_signature_inj:
  "expected_signature hm secret p = expected_signature hm secret p' \<longleftrightarrow>
   hm (Buffer_from_utf8 secret) p = hm (Buffer_from_utf8 secret) p'"
  by (auto simp: expected_signature_def dest: digest_hex_inj)

lemma flip_char_neq: "k < 8 \<Longrightarrow> flip_char k c \<noteq> c"
  by (cases c) (auto simp: less_Suc_eq numeral_eq_Suc)

lemma digit7_flip_char: "k \<noteq> 7 \<Longrightarrow> digit7 (flip_char k c) = digit7 c"
  by (cases c) simp

lemma length_mutate_bit: "length (mutate_bit i s) = length s"
  by (simp add: mutate_bit_def)

lemma mutate_bit_neq: "i < 8 * length s \<Longrightarrow> mutate_bit i s \<noteq> s"
proof -
  assume i: "i < 8 * length s"
  then have lt: "i div 8 < length s" by auto
  have "mutate_bit i s ! (i div 8) = flip_char (i mod 8) (s ! (i div 8))"
    using lt by (simp add: mutate_bit_def)
  moreover have "flip_char (i mod 8) (s ! (i div 8)) \<noteq> s ! (i div 8)"
    by (rule flip_char_neq) simp
  ultimately show ?thesis by auto
qed

lemma ascii_mutate_bit:
  assumes "ascii s" and "i mod 8 \<noteq> 7"
  shows "ascii (mutate_bit i s)"
proof -
  have "\<not> digit7 (mutate_bit i s ! n)" if n: "n < length s" for n
  proof (cases "n = i div 8")
    case True
    with n assms show ?thesis
      by (simp add: mutate_bit_def ascii_def list_all_length digit7_flip_char)
  next
    case False
    with n assms show ?thesis
      by (simp add: mutate_bit_def ascii_def list_all_length)
  qed
  then show ?thesis
    by (simp add: ascii_def list_all_length length_mutate_bit)
qed

lemma verifySignature_same_length:
  assumes "\<not> falsy secret" and "length (Buffer_from_utf8 s) = 71"
  shows "verifySignature hm payload (Some s) secret =
           Inr (s = expected_signature hm (the secret) payload)"
  using assms Buffer_from_utf8_eq_ascii [OF ascii_expected_signature, of s hm "the secret" payload]
    Buffer_from_utf8_ascii [OF ascii_expected_signature, of hm "the secret" payload]
  by (auto simp: verifySignature_configured timingSafeEqual_def length_expected_signature)

lemma verifySignature_true_iff:
  assumes "\<not> falsy secret"
  shows "verifySignature hm payload signature secret = Inr True \<longleftrightarrow>
           signature = Some (expected_signature hm (the secret) payload)"
proof (cases signature)
  case None
  then show ?thesis using assms
    by (simp add: verifySignature_configured timingSafeEqual_def length_expected_signature
          Buffer_from_utf8_def)
next
  case (Some s)
  show ?thesis
  proof (cases "length (Buffer_from_utf8 s) = 71")
    case True
    then show ?thesis using Some assms by (simp add: verifySignature_same_length)
  next
    case False
    then have "s \<noteq> expected_signature hm (the secret) payload"
      using Buffer_from_utf8_ascii [OF ascii_expected_signature, of hm "the secret" payload]
      by (auto simp: length_expected_signature)
    with False Some assms show ?thesis
      by (simp add: verifySignature_configured timingSafeEqual_def length_expected_signature)
  qed
qed

lemma expected_empty:
  "expected_signature test_hmac ''test-webhook-secret'' body_empty =
     ''sha256=8592f9db7794988b89f5bcd05f3a8ef74d6986828237b62f4eb5b02aea0b076f''"
  by code_simp

lemma mutate_bit_body_empty: "mutate_bit 0 body_empty = ''z}''"
  by code_simp

lemma hmac_mutated: "test_hmac (Buffer_from_utf8 ''test-webhook-secret'') ''z}'' \<noteq>
    test_hmac (Buffer_from_utf8 ''test-webhook-secret'') body_empty"
  by code_simp

text \<open>
  Claim C1. With a configured (non-empty) secret, a missing or empty signature header
  should make \<open>verifySignature\<close> return false without throwing. The code throws
  instead: the empty buffer and the 71-byte digest differ in length, which
  \<open>crypto.timingSafeEqual\<close> refuses with a \<open>RangeError\<close>, for every payload, secret and
  HMAC. In \<open>webhookHandler\<close> the exception reaches the outer \<open>catch\<close>: a delivery
  without signature header is answered with 500, where the repository's test expects
  401.
\<close>

theorem verifySignature_missing_signature_throws:
  "verifySignature hm payload None (Some (c # cs)) =
     Inl (RangeError ''Input buffers must have the same byte length'') \<and>
   verifySignature hm payload (Some []) (Some (c # cs)) =
     Inl (RangeError ''Input buffers must have the same byte length'') \<and>
   webhookHandler test_node
     \<lparr>x_hub_signature_256 = None, x_github_event = None, body = body_empty\<rparr> (0, []) =
     (\<lparr>statusCode = 500, sent = ''Internal server error''\<rparr>, (0, []))"
proof -
  have "webhookHandler test_node
     \<lparr>x_hub_signature_256 = None, x_github_event = None, body = body_empty\<rparr> (0, []) =
     (\<lparr>statusCode = 500, sent = ''Internal server error''\<rparr>, (0, []))"
    by code_simp
  then show ?thesis
    by (simp add: verifySignature_configured timingSafeEqual_def length_expected_signature
          Buffer_from_utf8_def)
qed

text \<open>
  Claim C2, as amended. When the secret is \<open>undefined\<close> or the empty string,
  \<open>verifySignature\<close> returns true whatever the signature. With a non-empty secret it
  returns true exactly when the signature header is \<open>sha256=\<close> followed by the
  lowercase hex HMAC-SHA256 of the payload; it returns false for every header of the
  digest's byte length (71) that differs from it, in particular for every single-bit
  mutation of the correct header that leaves the mutated character ASCII (bits 0 to 6);
  and it returns false for a single-bit mutation of the payload whenever the HMAC of
  the mutated payload differs from that of the original.
\<close>

theorem verifySignature_contract:
  "(falsy secret \<longrightarrow> verifySignature hm payload signature secret = Inr True) \<and>
   (\<not> falsy secret \<longrightarrow>
      (verifySignature hm payload signature secret = Inr True \<longleftrightarrow>
         signature = Some (expected_signature hm (the secret) payload)) \<and>
      (\<forall>s. length (Buffer_from_utf8 s) = 71 \<and> s \<noteq> expected_signature hm (the secret) payload
         \<longrightarrow> verifySignature hm payload (Some s) secret = Inr False) \<and>
      (\<forall>i. i < 8 * 71 \<and> i mod 8 \<noteq> 7 \<longrightarrow>
         verifySignature hm payload
           (Some (mutate_bit i (expected_signature hm (the secret) payload))) secret = Inr False) \<and>
      (\<forall>j. j < 8 * length payload \<and>
            hm (Buffer_from_utf8 (the secret)) (mutate_bit j payload)
              \<noteq> hm (Buffer_from_utf8 (the secret)) payload \<longrightarrow>
         verifySignature hm (mutate_bit j payload)
           (Some (expected_signature hm (the secret) payload)) secret = Inr False))"
proof (intro conjI impI allI)
  assume "falsy secret"
  then show "verifySignature hm payload signature secret = Inr True"
    by (simp add: verifySignature_def)
next
  assume "\<not> falsy secret"
  then show "verifySignature hm payload signature secret = Inr True \<longleftrightarrow>
         signature = Some (expected_signature hm (the secret) payload)"
    by (rule verifySignature_true_iff)
next
  fix s
  assume "\<not> falsy secret"
    and "length (Buffer_from_utf8 s) = 71 \<and> s \<noteq> expected_signature hm (the secret) payload"
  then show "verifySignature hm payload (Some s) secret = Inr False"
    by (simp add: verifySignature_same_length)
next
  fix i :: nat
  assume secret: "\<not> falsy secret" and i: "i < 8 * 71 \<and> i mod 8 \<noteq> 7"
  let ?e = "expected_signature hm (the secret) payload"
  have "ascii (mutate_bit i ?e)"
    using i by (simp add: ascii_mutate_bit ascii_expected_signature)
  then have "length (Buffer_from_utf8 (mutate_bit i ?e)) = 71"
    by (simp add: Buffer_from_utf8_ascii length_mutate_bit length_expected_signature)
  moreover have "mutate_bit i ?e \<noteq> ?e"
    using i by (simp add: mutate_bit_neq length_expected_signature)
  ultimately show "verifySignature hm payload (Some (mutate_bit i ?e)) secret = Inr False"
    using secret by (simp add: verifySignature_same_length)
next
  fix j :: nat
  assume secret: "\<not> falsy secret"
    and j: "j < 8 * length payload \<and>
            hm (Buffer_from_utf8 (the secret)) (mutate_bit j payload)
              \<noteq> hm (Buffer_from_utf8 (the secret)) payload"
  let ?e = "expected_signature hm (the secret) payload"
  have "length (Buffer_from_utf8 ?e) = 71"
    by (simp add: Buffer_from_utf8_ascii ascii_expected_signature length_expected_signature)
  moreover have "?e \<noteq> expected_signature hm (the secret) (mutate_bit j payload)"
    using j by (auto simp: expected_signature_inj)
  ultimately show "verifySignature hm (mutate_bit j payload) (Some ?e) secret = Inr False"
    using secret by (simp add: verifySignature_same_length)
qed

text \<open>
  The contract at the test secret: verification skipped without a secret, the correct
  signature of \<open>{}\<close> accepted, the signature with its lowest bit flipped and the
  payload with its lowest bit flipped rejected.
\<close>

theorem verifySignature_contract_witness:
  "verifySignature test_hmac body_empty None None = Inr True \<and>
   verifySignature test_hmac body_empty
     (Some ''sha256=8592f9db7794988b89f5bcd05f3a8ef74d6986828237b62f4eb5b02aea0b076f'')
     (Some ''test-webhook-secret'') = Inr True \<and>
   verifySignature test_hmac body_empty
     (Some (mutate_bit 0 ''sha256=8592f9db7794988b89f5bcd05f3a8ef74d6986828237b62f4eb5b02aea0b076f''))
     (Some ''test-webhook-secret'') = Inr False \<and>
   verifySignature test_hmac ''z}''
     (Some ''sha256=8592f9db7794988b89f5bcd05f3a8ef74d6986828237b62f4eb5b02aea0b076f'')
     (Some ''test-webhook-secret'') = Inr False"
proof -
  let ?sig = "''sha256=8592f9db7794988b89f5bcd05f3a8ef74d6986828237b62f4eb5b02aea0b076f''"
  let ?secret = "Some ''test-webhook-secret''"
  have configured: "\<not> falsy ?secret" by simp
  note skipped = verifySignature_contract [of None test_hmac body_empty None,
      THEN conjunct1, rule_format]
  note checked = verifySignature_contract [of ?secret test_hmac body_empty "Some ?sig",
      THEN conjunct2, rule_format, OF configured]
  have "verifySignature test_hmac body_empty None None = Inr True"
    by (rule skipped) simp
  moreover have "verifySignature test_hmac body_empty (Some ?sig) ?secret = Inr True"
    using checked [THEN conjunct1] expected_empty by simp
  moreover have "verifySignature test_hmac body_empty (Some (mutate_bit 0 ?sig)) ?secret
      = Inr False"
    using checked [THEN conjunct2, THEN conjunct2, THEN conjunct1, rule_format, of 0]
      expected_empty by simp
  moreover have "verifySignature test_hmac ''z}'' (Some ?sig) ?secret = Inr False"
    using checked [THEN conjunct2, THEN conjunct2, THEN conjunct2, rule_format, of 0]
      expected_empty mutate_bit_body_empty hmac_mutated
    by (simp add: body_empty_def)
  ultimately show ?thesis by simp
qed

text \<open>
  Claim C2 as stated fails for a secret that is present but empty: a forged signature
  is accepted. It also fails for the single-bit mutation of the correct header that flips
  the top bit of its first character: the character becomes two bytes in UTF-8, the
  buffers differ in length, and the comparison throws instead of returning false.
\<close>

theorem verifySignature_empty_secret_counterexample:
  "verifySignature test_hmac body_empty (Some ''forged'') (Some '''') = Inr True \<and>
   Some ''forged'' \<noteq> Some (expected_signature test_hmac '''' body_empty) \<and>
   verifySignature test_hmac body_empty
     (Some (mutate_bit 7
        ''sha256=8592f9db7794988b89f5bcd05f3a8ef74d6986828237b62f4eb5b02aea0b076f''))
     (Some ''test-webhook-secret'') =
     Inl (RangeError ''Input buffers must have the same byte length'')"
proof -
  have "verifySignature test_hmac body_empty
     (Some (mutate_bit 7
        ''sha256=8592f9db7794988b89f5bcd05f3a8ef74d6986828237b62f4eb5b02aea0b076f''))
     (Some ''test-webhook-secret'') =
     Inl (RangeError ''Input buffers must have the same byte length'')"
    by code_simp
  then show ?thesis
    by (simp add: verifySignature_def expected_signature_def)
qed

section \<open>The token minter\<close>

lemma parseInt_12345: "parseInt ''12345'' (Some 10) = Some 12345"
  by code_simp

text \<open>
  Claim C4. When \<open>appId\<close> or \<open>privateKey\<close> is absent or empty, \<open>generateJWT\<close> fails with
  the configuration error (not with the wrapped signing error), whatever the signer is:
  the check comes before any signing.
\<close>

theorem generateJWT_requires_configuration:
  assumes "falsy appId \<or> falsy privateKey"
  shows "generateJWT nd appId privateKey w =
           Inl (Error ''GitHub App ID and private key are required'') \<and>
         (\<forall>m. generateJWT nd appId privateKey w \<noteq> Inl (Error (''Failed to generate JWT: '' @ m))) \<and>
         (\<forall>sign. generateJWT (nd\<lparr>jwt_sign := sign\<rparr>) appId privateKey w =
            generateJWT nd appId privateKey w)"
  using assms by (auto simp: generateJWT_def Error_def)

text \<open>The calls of the repository's tests, \<open>generateJWT(null, 'key')\<close> and
  \<open>generateJWT('123', null)\<close>, and an empty key.\<close>

theorem generateJWT_requires_configuration_witness:
  "falsy None \<and> falsy (Some '''') \<and>
   generateJWT test_node None (Some ''key'') 0 =
     Inl (Error ''GitHub App ID and private key are required'') \<and>
   generateJWT test_node (Some ''123'') None 0 =
     Inl (Error ''GitHub App ID and private key are required'') \<and>
   generateJWT test_node (Some ''123'') (Some '''') 0 =
     Inl (Error ''GitHub App ID and private key are required'')"
  using generateJWT_requires_configuration [of None "Some ''key''" test_node 0]
    generateJWT_requires_configuration [of "Some ''123''" None test_node 0]
    generateJWT_requires_configuration [of "Some ''123''" "Some ''''" test_node 0]
  by simp

text \<open>
  Claim C3, as amended. For a non-empty \<open>appId\<close> and \<open>privateKey\<close>, \<open>generateJWT\<close> hands
  the signer the claims \<open>iat = now - 60\<close>, \<open>exp = now + 600\<close> (so \<open>exp - iat = 660\<close>) and
  \<open>iss = parseInt(appId, 10)\<close>, where \<open>now\<close> is the clock in whole seconds; it returns
  the signer's token, and fails with the wrapped signing error when the signer rejects
  the key.
\<close>

theorem generateJWT_claims:
  assumes "\<not> falsy appId" and "\<not> falsy privateKey"
  shows "\<exists>payload.
           generateJWT nd appId privateKey w =
             (case jwt_sign nd payload (the privateKey) of
                Inr token \<Rightarrow> Inr token
              | Inl error \<Rightarrow> Inl (Error (''Failed to generate JWT: '' @ message error))) \<and>
           iat payload = Date_now nd w div 1000 - 60 \<and>
           exp payload = Date_now nd w div 1000 + 600 \<and>
           exp payload - iat payload = 660 \<and>
           iss payload = parseInt (the appId) (Some 10)"
proof -
  let ?now = "Date_now nd w div 1000"
  let ?payload = "\<lparr>iat = ?now - 60, exp = ?now + 10 * 60,
                    iss = parseInt (the appId) (Some 10)\<rparr>"
  have "generateJWT nd appId privateKey w =
          (case jwt_sign nd ?payload (the privateKey) of
             Inr token \<Rightarrow> Inr token
           | Inl error \<Rightarrow> Inl (Error (''Failed to generate JWT: '' @ message error)))"
    using assms by (simp add: generateJWT_def Let_def)
  moreover have "exp ?payload - iat ?payload = 660" by simp
  ultimately show ?thesis
    by (intro exI [of _ ?payload]) simp
qed

text \<open>At the clock value 1700000000123 ms and the app id \<open>12345\<close>, a signer that accepts
  only the expected claims signs.\<close>

theorem generateJWT_claims_witness:
  "\<not> falsy (Some ''12345'') \<and> \<not> falsy (Some ''test-private-key'') \<and>
   generateJWT
     (test_node\<lparr>jwt_sign :=
        signer_expecting \<lparr>iat = 1699999940, exp = 1700000600, iss = Some 12345\<rparr>\<rparr>)
     (Some ''12345'') (Some ''test-private-key'') 1700000000123 = Inr ''header.claims.signature''"
proof -
  let ?nd = "test_node\<lparr>jwt_sign :=
        signer_expecting \<lparr>iat = 1699999940, exp = 1700000600, iss = Some 12345\<rparr>\<rparr>"
  have a: "\<not> falsy (Some ''12345'')" and k: "\<not> falsy (Some ''test-private-key'')"
    by simp_all
  from generateJWT_claims [OF a k, of ?nd 1700000000123]
  obtain payload where
    r: "generateJWT ?nd (Some ''12345'') (Some ''test-private-key'') 1700000000123 =
             (case jwt_sign ?nd payload ''test-private-key'' of
                Inr token \<Rightarrow> Inr token
              | Inl error \<Rightarrow> Inl (Error (''Failed to generate JWT: '' @ message error)))"
    and i: "iat payload = Date_now ?nd 1700000000123 div 1000 - 60"
    and e: "exp payload = Date_now ?nd 1700000000123 div 1000 + 600"
    and s: "iss payload = parseInt ''12345'' (Some 10)"
    by auto
  have "payload = \<lparr>iat = 1699999940, exp = 1700000600, iss = Some 12345\<rparr>"
    using i e s by (simp add: test_node_def parseInt_12345)
  with r a k show ?thesis
    by (simp add: signer_expecting_def)
qed

text \<open>
  Claim C3 as stated fails: a non-empty key need not be one the signer accepts. With the
  key of the test suite no assertion is produced.
\<close>

theorem generateJWT_malformed_key_counterexample:
  "generateJWT test_node (Some ''12345'') (Some ''fake-private-key-for-testing'') 0 =
     Inl (Error (''Failed to generate JWT: '' @
                 ''secretOrPrivateKey must be an asymmetric key when using RS256''))"
  by (simp add: generateJWT_def test_node_def test_sign_def Error_def)

section \<open>The rate-limited invoker\<close>

declare withRateLimit.simps [simp del]

lemma operation_calls_append [simp]:
  "operation_calls (xs @ ys) = operation_calls xs + operation_calls ys"
  by (simp add: operation_calls_def)

lemma operation_calls_simps [simp]:
  "operation_calls [] = 0"
  "operation_calls (OperationCalled # xs) = Suc (operation_calls xs)"
  "operation_calls (SetTimeout d # xs) = operation_calls xs"
  "operation_calls (Call f # xs) = operation_calls xs"
  by (simp_all add: operation_calls_def)

lemma withRateLimit_success:
  "operation w = (Inr result, w1) \<Longrightarrow>
   withRateLimit nd operation retries (w, tr) = (Inr result, (w1, tr @ [OperationCalled]))"
  by (simp add: withRateLimit.simps)

lemma withRateLimit_exhausted:
  assumes "operation w = (Inl error, w1)" and "rate_limited error" and "retries \<le> 0"
  shows "withRateLimit nd operation retries (w, tr) = (Inl error, (w1, tr @ [OperationCalled]))"
  using assms by (auto simp: withRateLimit.simps rate_limited_def split: option.splits)

lemma withRateLimit_retry:
  assumes "operation w = (Inl error, w1)" and "status error = Some 403"
    and "headers error = Some h" and "map_of h ''x-ratelimit-remaining'' = Some ''0''"
    and "0 < retries"
  shows "withRateLimit nd operation retries (w, tr) =
           withRateLimit nd operation (retries - 1)
             (setTimeout nd (wait_time nd h w1) w1,
              tr @ [OperationCalled, SetTimeout (wait_time nd h w1)])"
  using assms by (simp add: withRateLimit.simps)

lemma withRateLimit_trace:
  "\<exists>tr'. snd (snd (withRateLimit nd operation retries (w, tr))) = tr @ tr' \<and>
         1 \<le> operation_calls tr' \<and> operation_calls tr' \<le> nat retries + 1"
proof (induction nd operation retries "(w, tr)" arbitrary: w tr rule: withRateLimit.induct)
  case (1 nd operation retries w tr)
  obtain r w1 where op: "operation w = (r, w1)" by (cases "operation w")
  show ?case
  proof (cases r)
    case (Inr result)
    with op show ?thesis by (simp add: withRateLimit_success)
  next
    case (Inl error)
    show ?thesis
    proof (cases "status error = Some 403 \<and> (\<exists>h. headers error = Some h \<and>
        map_of h ''x-ratelimit-remaining'' = Some ''0'') \<and> 0 < retries")
      case True
      then obtain h where h: "headers error = Some h"
        "map_of h ''x-ratelimit-remaining'' = Some ''0''" by auto
      from "1.hyps" [OF op [symmetric, unfolded Inl] refl _ h(1)] True h
      obtain tr' where
        "snd (snd (withRateLimit nd operation (retries - 1)
            (setTimeout nd (wait_time nd h w1) w1,
             tr @ [OperationCalled, SetTimeout (wait_time nd h w1)]))) =
           (tr @ [OperationCalled, SetTimeout (wait_time nd h w1)]) @ tr'"
        and "1 \<le> operation_calls tr'" and "operation_calls tr' \<le> nat (retries - 1) + 1"
        by auto
      moreover have "nat (retries - 1) + 1 = nat retries" using True by auto
      ultimately show ?thesis
        using withRateLimit_retry [of operation w error w1 h retries nd tr] op Inl True h
        by (intro exI [of _ "[OperationCalled, SetTimeout (wait_time nd h w1)] @ tr'"]) simp
    next
      case False
      with op Inl show ?thesis
        by (auto simp: withRateLimit.simps split: option.splits)
    qed
  qed
qed

lemma withRateLimit_extends:
  "\<exists>tr'. snd (snd (withRateLimit nd operation retries (w, tr))) = tr @ tr'"
  using withRateLimit_trace [of nd operation retries w tr] by blast

lemma rate_limited_headers:
  assumes "rate_limited e"
  obtains h where "status e = Some 403" and "headers e = Some h"
    and "map_of h ''x-ratelimit-remaining'' = Some ''0''"
  using assms by (auto simp: rate_limited_def split: option.splits)

text \<open>A 403 error without a \<open>headers\<close> object is replaced by the \<open>TypeError\<close> that
  reading \<open>error.headers['x-ratelimit-remaining']\<close> throws.\<close>

lemma withRateLimit_missing_headers:
  assumes "operation w = (Inl error, w1)" and "status error = Some 403"
    and "headers error = None"
  shows "withRateLimit nd operation retries (w, tr) =
           (Inl (TypeError ''Cannot read properties of undefined''),
            (w1, tr @ [OperationCalled]))"
  using assms by (simp add: withRateLimit.simps)




text \<open>
  Claim C6. Whatever the operation does, \<open>withRateLimit\<close> returns, having called it at
  least once and at most \<open>retries + 1\<close> times. When every call fails with a rate-limit
  error, a budget of 3 gives exactly 4 calls, each after the timer of the previous
  failure, and the error propagated is the one of the fourth call.
\<close>

theorem withRateLimit_retry_budget:
  "(\<exists>tr'. snd (snd (withRateLimit nd operation retries (w, tr))) = tr @ tr' \<and>
          1 \<le> operation_calls tr' \<and> operation_calls tr' \<le> nat retries + 1) \<and>
   ((\<forall>w. \<exists>e w'. operation w = (Inl e, w') \<and> rate_limited e) \<longrightarrow>
      (\<exists>e1 w1 d1 e2 w2 d2 e3 w3 d3 e4 w4 tr'.
         operation w = (Inl e1, w1) \<and> d1 = wait_time nd (the (headers e1)) w1 \<and>
         operation (setTimeout nd d1 w1) = (Inl e2, w2) \<and>
         d2 = wait_time nd (the (headers e2)) w2 \<and>
         operation (setTimeout nd d2 w2) = (Inl e3, w3) \<and>
         d3 = wait_time nd (the (headers e3)) w3 \<and>
         operation (setTimeout nd d3 w3) = (Inl e4, w4) \<and> rate_limited e4 \<and>
         tr' = [OperationCalled, SetTimeout d1, OperationCalled, SetTimeout d2,
                OperationCalled, SetTimeout d3, OperationCalled] \<and>
         withRateLimit nd operation 3 (w, tr) = (Inl e4, (w4, tr @ tr')) \<and>
         operation_calls tr' = 4))"
proof (intro conjI impI)
  show "\<exists>tr'. snd (snd (withRateLimit nd operation retries (w, tr))) = tr @ tr' \<and>
          1 \<le> operation_calls tr' \<and> operation_calls tr' \<le> nat retries + 1"
    by (rule withRateLimit_trace)
next
  assume always: "\<forall>w. \<exists>e w'. operation w = (Inl e, w') \<and> rate_limited e"
  from always [THEN spec, of w] obtain e1 w1 where o1: "operation w = (Inl e1, w1)" and r1: "rate_limited e1"
    by blast
  from r1 obtain h1 where h1: "status e1 = Some 403" "headers e1 = Some h1"
    "map_of h1 ''x-ratelimit-remaining'' = Some ''0''" by (rule rate_limited_headers)
  define d1 where "d1 = wait_time nd h1 w1"
  from always [THEN spec, of "setTimeout nd d1 w1"] obtain e2 w2 where o2: "operation (setTimeout nd d1 w1) = (Inl e2, w2)"
    and r2: "rate_limited e2" by blast
  from r2 obtain h2 where h2: "status e2 = Some 403" "headers e2 = Some h2"
    "map_of h2 ''x-ratelimit-remaining'' = Some ''0''" by (rule rate_limited_headers)
  define d2 where "d2 = wait_time nd h2 w2"
  from always [THEN spec, of "setTimeout nd d2 w2"] obtain e3 w3 where o3: "operation (setTimeout nd d2 w2) = (Inl e3, w3)"
    and r3: "rate_limited e3" by blast
  from r3 obtain h3 where h3: "status e3 = Some 403" "headers e3 = Some h3"
    "map_of h3 ''x-ratelimit-remaining'' = Some ''0''" by (rule rate_limited_headers)
  define d3 where "d3 = wait_time nd h3 w3"
  from always [THEN spec, of "setTimeout nd d3 w3"] obtain e4 w4 where o4: "operation (setTimeout nd d3 w3) = (Inl e4, w4)"
    and r4: "rate_limited e4" by blast
  have "withRateLimit nd operation 3 (w, tr) =
      withRateLimit nd operation 2 (setTimeout nd d1 w1, tr @ [OperationCalled, SetTimeout d1])"
    using withRateLimit_retry [of operation w e1 w1 h1 3 nd tr] o1 h1
    by (simp add: d1_def)
  also have "\<dots> = withRateLimit nd operation 1
      (setTimeout nd d2 w2,
       tr @ [OperationCalled, SetTimeout d1, OperationCalled, SetTimeout d2])"
    using withRateLimit_retry [of operation "setTimeout nd d1 w1" e2 w2 h2 2 nd
        "tr @ [OperationCalled, SetTimeout d1]"] o2 h2
    by (simp add: d2_def)
  also have "\<dots> = withRateLimit nd operation 0
      (setTimeout nd d3 w3,
       tr @ [OperationCalled, SetTimeout d1, OperationCalled, SetTimeout d2,
             OperationCalled, SetTimeout d3])"
    using withRateLimit_retry [of operation "setTimeout nd d2 w2" e3 w3 h3 1 nd
        "tr @ [OperationCalled, SetTimeout d1, OperationCalled, SetTimeout d2]"] o3 h3
    by (simp add: d3_def)
  also have "\<dots> = (Inl e4, (w4,
       tr @ [OperationCalled, SetTimeout d1, OperationCalled, SetTimeout d2,
             OperationCalled, SetTimeout d3, OperationCalled]))"
    using withRateLimit_exhausted [of operation "setTimeout nd d3 w3" e4 w4 0 nd
        "tr @ [OperationCalled, SetTimeout d1, OperationCalled, SetTimeout d2,
             OperationCalled, SetTimeout d3]"] o4 r4 by simp
  finally have run: "withRateLimit nd operation 3 (w, tr) =
      (Inl e4, (w4,
       tr @ [OperationCalled, SetTimeout d1, OperationCalled, SetTimeout d2,
             OperationCalled, SetTimeout d3, OperationCalled]))" .
  show "\<exists>e1 w1 d1 e2 w2 d2 e3 w3 d3 e4 w4 tr'.
         operation w = (Inl e1, w1) \<and> d1 = wait_time nd (the (headers e1)) w1 \<and>
         operation (setTimeout nd d1 w1) = (Inl e2, w2) \<and>
         d2 = wait_time nd (the (headers e2)) w2 \<and>
         operation (setTimeout nd d2 w2) = (Inl e3, w3) \<and>
         d3 = wait_time nd (the (headers e3)) w3 \<and>
         operation (setTimeout nd d3 w3) = (Inl e4, w4) \<and> rate_limited e4 \<and>
         tr' = [OperationCalled, SetTimeout d1, OperationCalled, SetTimeout d2,
                OperationCalled, SetTimeout d3, OperationCalled] \<and>
         withRateLimit nd operation 3 (w, tr) = (Inl e4, (w4, tr @ tr')) \<and>
         operation_calls tr' = 4"
  proof (intro exI conjI)
    show "operation w = (Inl e1, w1)" by (rule o1)
    show "d1 = wait_time nd (the (headers e1)) w1" by (simp add: d1_def h1)
    show "operation (setTimeout nd d1 w1) = (Inl e2, w2)" by (rule o2)
    show "d2 = wait_time nd (the (headers e2)) w2" by (simp add: d2_def h2)
    show "operation (setTimeout nd d2 w2) = (Inl e3, w3)" by (rule o3)
    show "d3 = wait_time nd (the (headers e3)) w3" by (simp add: d3_def h3)
    show "operation (setTimeout nd d3 w3) = (Inl e4, w4)" by (rule o4)
    show "rate_limited e4" by (rule r4)
    show "[OperationCalled, SetTimeout d1, OperationCalled, SetTimeout d2,
           OperationCalled, SetTimeout d3, OperationCalled] =
          [OperationCalled, SetTimeout d1, OperationCalled, SetTimeout d2,
           OperationCalled, SetTimeout d3, OperationCalled]" by (rule refl)
    show "withRateLimit nd operation 3 (w, tr) =
      (Inl e4, (w4,
       tr @ [OperationCalled, SetTimeout d1, OperationCalled, SetTimeout d2,
             OperationCalled, SetTimeout d3, OperationCalled]))" by (rule run)
    show "operation_calls [OperationCalled, SetTimeout d1, OperationCalled, SetTimeout d2,
           OperationCalled, SetTimeout d3, OperationCalled] = 4" by simp
  qed
qed

lemma rate_limited_until_5: "rate_limited limited_until_5"
  by (simp add: rate_limited_def limited_until_5_def)

text \<open>An operation that is rate limited until second 5, started at time 0.\<close>

theorem withRateLimit_retry_budget_witness:
  "(\<forall>w. \<exists>e w'. always_failing limited_until_5 w = (Inl e, w') \<and> rate_limited e) \<and>
   withRateLimit test_node (always_failing limited_until_5) 3 (0, []) =
     (Inl limited_until_5,
      (6002, [OperationCalled, SetTimeout (Some 6000), OperationCalled, SetTimeout (Some 0),
              OperationCalled, SetTimeout (Some (- 1)), OperationCalled])) \<and>
   operation_calls (snd (snd (withRateLimit test_node (always_failing limited_until_5) 3 (0, []))))
     = 4"
proof -
  have always: "\<forall>w. \<exists>e w'. always_failing limited_until_5 w = (Inl e, w') \<and> rate_limited e"
    by (simp add: always_failing_def rate_limited_until_5)
  from withRateLimit_retry_budget [of test_node "always_failing limited_until_5" 3 0 "[]",
      THEN conjunct2, THEN mp, OF always]
  have "operation_calls
          (snd (snd (withRateLimit test_node (always_failing limited_until_5) 3 (0, [])))) = 4"
    by (elim exE conjE) simp
  moreover have "withRateLimit test_node (always_failing limited_until_5) 3 (0, []) =
     (Inl limited_until_5,
      (6002, [OperationCalled, SetTimeout (Some 6000), OperationCalled, SetTimeout (Some 0),
              OperationCalled, SetTimeout (Some (- 1)), OperationCalled]))"
    by code_simp
  ultimately show ?thesis using always by simp
qed







section \<open>The event dispatcher\<close>

lemma authenticateInstallation_trace:
  "snd (snd (authenticateInstallation nd installationId s)) =
     snd s @ [Call ''authenticateInstallation'']"
  by (simp add: authenticateInstallation_def log_call_def Let_def
        split: sum.splits prod.splits)

lemma size_labels_not_Nil: "size_labels nd pull_request \<noteq> []"
  by (simp add: size_labels_def)



lemma handleIssueOpened_extends:
  "\<exists>tr'. snd (snd (handleIssueOpened nd payload octokit (w, tr))) = tr @ tr'"
proof (cases "nullish payload")
  case True
  then show ?thesis by (simp add: handleIssueOpened_def log_call_def)
next
  case False
  let ?op = "createComment nd octokit (property payload ''repository'') (property payload ''issue'')"
  from withRateLimit_extends [of nd ?op 3 w "tr @ [Call ''handleIssueOpened'']"]
  obtain tr' where "snd (snd (withRateLimit nd ?op 3 (w, tr @ [Call ''handleIssueOpened'']))) =
      (tr @ [Call ''handleIssueOpened'']) @ tr'" by blast
  with False show ?thesis
    by (intro exI [of _ "[Call ''handleIssueOpened''] @ tr'"])
      (auto simp: handleIssueOpened_def log_call_def Let_def split: prod.splits)
qed

lemma handlePROpened_extends:
  "\<exists>tr'. snd (snd (handlePROpened nd payload octokit (w, tr))) = tr @ tr'"
proof (cases "nullish payload \<or> nullish (property payload ''pull_request'')")
  case True
  then show ?thesis by (auto simp: handlePROpened_def log_call_def Let_def)
next
  case False
  let ?op = "addLabels nd octokit (property payload ''repository'')
      (property payload ''pull_request'') (size_labels nd (property payload ''pull_request''))"
  from withRateLimit_extends [of nd ?op 3 w "tr @ [Call ''handlePROpened'']"]
  obtain tr' where "snd (snd (withRateLimit nd ?op 3 (w, tr @ [Call ''handlePROpened'']))) =
      (tr @ [Call ''handlePROpened'']) @ tr'" by blast
  with False show ?thesis
    by (intro exI [of _ "[Call ''handlePROpened''] @ tr'"])
      (auto simp: handlePROpened_def log_call_def Let_def size_labels_not_Nil
         split: prod.splits)
qed

lemma simple_handlers_extend:
  "snd (snd (handleIssueClosed nd payload octokit (w, tr))) = tr @ [Call ''handleIssueClosed'']"
  "snd (snd (handleIssueLabeled nd payload octokit (w, tr))) = tr @ [Call ''handleIssueLabeled'']"
  "snd (snd (handlePRMerged nd payload octokit (w, tr))) = tr @ [Call ''handlePRMerged'']"
  "snd (snd (handlePRReviewRequested nd payload octokit (w, tr))) =
     tr @ [Call ''handlePRReviewRequested'']"
  "snd (snd (handlePush nd payload octokit (w, tr))) = tr @ [Call ''handlePush'']"
  "snd (snd (handleInstallation nd payload (w, tr))) = tr @ [Call ''handleInstallation'']"
  by (simp_all add: handleIssueClosed_def handleIssueLabeled_def handlePRMerged_def
        handlePRReviewRequested_def handlePush_def handleInstallation_def log_call_def Let_def
        split: sum.splits)

lemma handleIssues_extends:
  "\<exists>tr'. snd (snd (handleIssues nd payload octokit (w, tr))) = tr @ tr'"
proof -
  from handleIssueOpened_extends [of nd payload octokit w "tr @ [Call ''handleIssues'']"]
  obtain tr' where "snd (snd (handleIssueOpened nd payload octokit (w, tr @ [Call ''handleIssues'']))) =
      (tr @ [Call ''handleIssues'']) @ tr'" by blast
  then show ?thesis
    by (auto simp: handleIssues_def log_call_def Let_def simple_handlers_extend
          split: sum.splits)
qed

lemma handlePullRequest_extends:
  "\<exists>tr'. snd (snd (handlePullRequest nd payload octokit (w, tr))) = tr @ tr'"
proof -
  from handlePROpened_extends [of nd payload octokit w "tr @ [Call ''handlePullRequest'']"]
  obtain tr' where "snd (snd (handlePROpened nd payload octokit (w, tr @ [Call ''handlePullRequest'']))) =
      (tr @ [Call ''handlePullRequest'']) @ tr'" by blast
  then show ?thesis
    by (auto simp: handlePullRequest_def log_call_def Let_def simple_handlers_extend
          split: sum.splits)
qed

lemma route_extends:
  "\<exists>tr'. snd (snd (route nd event data octokit (w, tr))) = tr @ tr'"
  using handleIssues_extends [of nd data octokit w tr]
    handlePullRequest_extends [of nd data octokit w tr]
  by (auto simp: route_def simple_handlers_extend)


lemma webhookHandler_verified:
  assumes "verifySignature (createHmac_sha256 nd) (body req) (x_hub_signature_256 req)
             (WEBHOOK_SECRET nd) = Inr True"
  shows "webhookHandler nd req s =
    (case JSON_parse nd (body req) of
       Inl e \<Rightarrow> (\<lparr>statusCode = 500, sent = ''Internal server error''\<rparr>, s)
     | Inr data \<Rightarrow>
         if nullish data then (\<lparr>statusCode = 500, sent = ''Internal server error''\<rparr>, s)
         else
           (case installation_octokit nd (read_opt (property data ''installation'') ''id'') s of
              (Inl error, s1) \<Rightarrow> (\<lparr>statusCode = 500, sent = ''Authentication failed''\<rparr>, s1)
            | (Inr octokit, s1) \<Rightarrow>
                (case route nd (x_github_event req) data octokit s1 of
                   (Inl e, s2) \<Rightarrow> (\<lparr>statusCode = 500, sent = ''Internal server error''\<rparr>, s2)
                 | (Inr u, s2) \<Rightarrow> (\<lparr>statusCode = 200, sent = ''OK''\<rparr>, s2))))"
  using assms
  by (simp add: webhookHandler_def webhookHandler_try_def dispatch_def read_prop_def Let_def
        split: sum.splits prod.splits)

lemma webhookHandler_rejected:
  assumes "verifySignature (createHmac_sha256 nd) (body req) (x_hub_signature_256 req)
             (WEBHOOK_SECRET nd) = Inr False"
  shows "webhookHandler nd req s = (\<lparr>statusCode = 401, sent = ''Unauthorized''\<rparr>, s)"
  using assms by (simp add: webhookHandler_def webhookHandler_try_def Let_def)





text \<open>
  Claim C8. When \<open>verifySignature\<close> returns false, the response is 401
  \<open>Unauthorized\<close> and the state, the trace included, is left as it was: no handler is
  entered, no credential is exchanged.
\<close>

theorem webhookHandler_rejects_invalid_signature:
  assumes "verifySignature (createHmac_sha256 nd) (body req) (x_hub_signature_256 req)
             (WEBHOOK_SECRET nd) = Inr False"
  shows "webhookHandler nd req s = (\<lparr>statusCode = 401, sent = ''Unauthorized''\<rparr>, s) \<and>
         (\<forall>f. entered f (snd (snd (webhookHandler nd req s))) = entered f (snd s))"
  using webhookHandler_rejected [OF assms] by simp

text \<open>A push delivery under the test secret with a signature of zeros.\<close>

theorem webhookHandler_rejects_invalid_signature_witness:
  "verifySignature (createHmac_sha256 test_node)
     (body (delivery ''push''
        ''sha256=0000000000000000000000000000000000000000000000000000000000000000'' body_push))
     (x_hub_signature_256 (delivery ''push''
        ''sha256=0000000000000000000000000000000000000000000000000000000000000000'' body_push))
     (WEBHOOK_SECRET test_node) = Inr False \<and>
   webhookHandler test_node
     (delivery ''push''
        ''sha256=0000000000000000000000000000000000000000000000000000000000000000'' body_push)
     (0, []) = (\<lparr>statusCode = 401, sent = ''Unauthorized''\<rparr>, (0, [])) \<and>
   entered ''handlePush''
     (snd (snd (webhookHandler test_node
        (delivery ''push''
           ''sha256=0000000000000000000000000000000000000000000000000000000000000000'' body_push)
        (0, [])))) = 0"
proof -
  let ?req = "delivery ''push''
        ''sha256=0000000000000000000000000000000000000000000000000000000000000000'' body_push"
  have v: "verifySignature (createHmac_sha256 test_node) (body ?req) (x_hub_signature_256 ?req)
     (WEBHOOK_SECRET test_node) = Inr False"
    by code_simp
  from webhookHandler_rejects_invalid_signature [OF v, of "(0, [])"] v
  show ?thesis by (simp add: entered_def)
qed


lemma truthy_id_not_nullish:
  "truthy (read_opt (property data ''installation'') ''id'') \<Longrightarrow> \<not> nullish data"
  by (cases data) (simp_all add: read_opt_def)



text \<open>
  Claim C10, as amended. When the signature is accepted and the parsed payload has a
  truthy \<open>installation.id\<close> (not \<open>0\<close>, \<open>''\<close>, \<open>false\<close> or \<open>null\<close>), whatever the event
  type: the first thing recorded is the entry of \<open>authenticateInstallation\<close>; when it
  fails the response is 500 \<open>Authentication failed\<close> and nothing else was entered; when
  it succeeds the event is routed with the client it returned.
\<close>

theorem webhookHandler_exchanges_first:
  assumes "verifySignature (createHmac_sha256 nd) (body req) (x_hub_signature_256 req)
             (WEBHOOK_SECRET nd) = Inr True"
    and "JSON_parse nd (body req) = Inr data"
    and "truthy (read_opt (property data ''installation'') ''id'')"
  shows
    "(\<exists>tr'. snd (snd (webhookHandler nd req s)) =
              snd s @ Call ''authenticateInstallation'' # tr') \<and>
     (\<forall>error s1.
        authenticateInstallation nd (read_opt (property data ''installation'') ''id'') s
          = (Inl error, s1) \<longrightarrow>
        webhookHandler nd req s = (\<lparr>statusCode = 500, sent = ''Authentication failed''\<rparr>, s1) \<and>
        snd s1 = snd s @ [Call ''authenticateInstallation'']) \<and>
     (\<forall>octokit s1.
        authenticateInstallation nd (read_opt (property data ''installation'') ''id'') s
          = (Inr octokit, s1) \<longrightarrow>
        snd s1 = snd s @ [Call ''authenticateInstallation''] \<and>
        webhookHandler nd req s =
          (case route nd (x_github_event req) data (Some octokit) s1 of
             (Inl e, s2) \<Rightarrow> (\<lparr>statusCode = 500, sent = ''Internal server error''\<rparr>, s2)
           | (Inr u, s2) \<Rightarrow> (\<lparr>statusCode = 200, sent = ''OK''\<rparr>, s2)))"
proof -
  let ?id = "read_opt (property data ''installation'') ''id''"
  note n = truthy_id_not_nullish [OF assms(3)]
  obtain r s1 where auth: "authenticateInstallation nd ?id s = (r, s1)"
    by (cases "authenticateInstallation nd ?id s")
  have tr1: "snd s1 = snd s @ [Call ''authenticateInstallation'']"
    using authenticateInstallation_trace [of nd ?id s] auth by simp
  have whole: "webhookHandler nd req s =
      (case r of
         Inl error \<Rightarrow> (\<lparr>statusCode = 500, sent = ''Authentication failed''\<rparr>, s1)
       | Inr octokit \<Rightarrow>
           (case route nd (x_github_event req) data (Some octokit) s1 of
              (Inl e, s2) \<Rightarrow> (\<lparr>statusCode = 500, sent = ''Internal server error''\<rparr>, s2)
            | (Inr u, s2) \<Rightarrow> (\<lparr>statusCode = 200, sent = ''OK''\<rparr>, s2)))"
    using webhookHandler_verified [OF assms(1), of s] assms(2,3) n auth
    by (simp add: installation_octokit_def split: sum.splits)
  have first: "\<exists>tr'. snd (snd (webhookHandler nd req s)) =
              snd s @ Call ''authenticateInstallation'' # tr'"
  proof (cases r)
    case (Inl error)
    with whole tr1 show ?thesis by simp
  next
    case (Inr octokit)
    obtain w1 t1 where s1: "s1 = (w1, t1)" by (cases s1)
    from route_extends [of nd "x_github_event req" data "Some octokit" w1 t1]
    obtain tr' where "snd (snd (route nd (x_github_event req) data (Some octokit) (w1, t1))) =
        t1 @ tr'" by blast
    with whole Inr s1 tr1 show ?thesis
      by (auto split: prod.splits sum.splits)
  qed
  from first whole auth tr1 show ?thesis by auto
qed

text \<open>A push for installation 42: the exchange precedes \<open>handlePush\<close>, which never uses
  the client; when the platform refuses the exchange the response is 500.\<close>

theorem webhookHandler_exchanges_first_witness:
  "webhookHandler test_node
     (delivery ''push''
        ''sha256=89bdffa2d8c641839b1f3ec7aa31cbcd0dd66489ca8224f4ee5a2f4ceae6871d'' body_push)
     (0, []) = (\<lparr>statusCode = 200, sent = ''OK''\<rparr>,
       (0, [Call ''authenticateInstallation'', Call ''handlePush''])) \<and>
   webhookHandler (test_node\<lparr>request := \<lambda>client call w. (Inl not_found, w)\<rparr>)
     (delivery ''push''
        ''sha256=89bdffa2d8c641839b1f3ec7aa31cbcd0dd66489ca8224f4ee5a2f4ceae6871d'' body_push)
     (0, []) = (\<lparr>statusCode = 500, sent = ''Authentication failed''\<rparr>,
       (0, [Call ''authenticateInstallation'']))"
proof -
  let ?push = "delivery ''push''
         ''sha256=89bdffa2d8c641839b1f3ec7aa31cbcd0dd66489ca8224f4ee5a2f4ceae6871d'' body_push"
  let ?revoked = "test_node\<lparr>request := \<lambda>client call w. (Inl not_found, w)\<rparr>"
  let ?id = "read_opt (property parsed_push ''installation'') ''id''"
  have v: "verifySignature (createHmac_sha256 test_node) (body ?push)
      (x_hub_signature_256 ?push) (WEBHOOK_SECRET test_node) = Inr True"
    by code_simp
  have p: "JSON_parse test_node (body ?push) = Inr parsed_push" by code_simp
  have t: "truthy ?id" by code_simp
  have a: "authenticateInstallation test_node ?id (0, []) =
      (Inr (Token (Str ''ghs_installation_token'')), (0, [Call ''authenticateInstallation'']))"
    by code_simp
  have r: "route test_node (x_github_event ?push) parsed_push
      (Some (Token (Str ''ghs_installation_token''))) (0, [Call ''authenticateInstallation'']) =
      (Inr (), (0, [Call ''authenticateInstallation'', Call ''handlePush'']))"
    by code_simp
  have v': "verifySignature (createHmac_sha256 ?revoked) (body ?push)
      (x_hub_signature_256 ?push) (WEBHOOK_SECRET ?revoked) = Inr True"
    by code_simp
  have p': "JSON_parse ?revoked (body ?push) = Inr parsed_push" by code_simp
  have a': "authenticateInstallation ?revoked ?id (0, []) =
      (Inl (Error (''Failed to authenticate installation: '' @
                   ''Failed to get installation token: '' @ ''Not Found'')),
       (0, [Call ''authenticateInstallation'']))"
    by code_simp
  from webhookHandler_exchanges_first [OF v p t, of "(0, [])"] a r
  have "webhookHandler test_node ?push (0, []) = (\<lparr>statusCode = 200, sent = ''OK''\<rparr>,
       (0, [Call ''authenticateInstallation'', Call ''handlePush'']))"
    by simp
  moreover from webhookHandler_exchanges_first [OF v' p' t, of "(0, [])"] a'
  have "webhookHandler ?revoked ?push (0, []) =
      (\<lparr>statusCode = 500, sent = ''Authentication failed''\<rparr>,
       (0, [Call ''authenticateInstallation'']))"
    by simp
  ultimately show ?thesis by simp
qed

text \<open>
  Claim C10 as stated fails: a push whose payload has the installation id \<open>0\<close> is
  routed to \<open>handlePush\<close> without any credential exchange.
\<close>

theorem webhookHandler_zero_id_counterexample:
  "JSON_parse test_node body_push0 =
     Inr (Obj [(''ref'', Str ''refs/heads/main''), (''commits'', Arr []),
               (''installation'', Obj [(''id'', Num 0)])]) \<and>
   webhookHandler test_node
     (delivery ''push''
        ''sha256=94513ac394432809c3cd5e447becdfb37a633a73670186eb725ea3f922423879'' body_push0)
     (0, []) = (\<lparr>statusCode = 200, sent = ''OK''\<rparr>, (0, [Call ''handlePush'']))"
  by code_simp

end
